theory Spec2Isabelle
  imports Complex_Main "HOL-Library.List_Lexorder" "HOL-Library.Monad_Syntax"
begin

section \<open>Values of the host language\<close>

text \<open>
  A JavaScript string is a sequence of UTF-16 code units. The regular expressions of
  \<^verbatim>\<open>cli.ts\<close> carry no \<^verbatim>\<open>u\<close> flag, and \<^verbatim>\<open>split\<close>, \<^verbatim>\<open>trim\<close>,
  \<^verbatim>\<open>includes\<close> and the relational operators all work on code units, so a string is
  modelled as the list of its code units. \<^verbatim>\<open><\<close> on strings is the lexicographic
  order of the code units, which is the order of lists over an ordered type.

  The numbers held in the filter and in the records are modelled as reals: they are finite
  doubles, every finite double is a real, and comparison and negation of finite doubles
  are exact. The great-circle distance is different: it is computed by rounded arithmetic
  and may be NaN, so it has a type of its own (see below). An optional field is an
  \<open>option\<close>; \<open>None\<close> is \<^verbatim>\<open>undefined\<close>.
\<close>

type_synonym jsstring = "nat list"

definition js :: "string \<Rightarrow> jsstring" where
  "js s = map of_char s"

abbreviation (input) hyphen :: nat where "hyphen \<equiv> 45"
abbreviation (input) colon :: nat where "colon \<equiv> 58"

text \<open>Truthiness of an optional string: \<^verbatim>\<open>undefined\<close> and \<^verbatim>\<open>""\<close> are falsy.\<close>

definition truthy :: "jsstring option \<Rightarrow> bool" where
  "truthy v = (case v of None \<Rightarrow> False | Some s \<Rightarrow> s \<noteq> [])"

text \<open>Truthiness of an optional number: \<^verbatim>\<open>undefined\<close> and \<^verbatim>\<open>0\<close> are falsy.\<close>

definition truthy_num :: "real option \<Rightarrow> bool" where
  "truthy_num v = (case v of None \<Rightarrow> False | Some x \<Rightarrow> x \<noteq> 0)"

text \<open>
  The class \<^verbatim>\<open>\s\<close> of ECMAScript: the white space and line terminator code points.
  \<^verbatim>\<open>String.prototype.trim\<close> strips exactly the same code units.
\<close>

definition is_space :: "nat \<Rightarrow> bool" where
  "is_space c \<longleftrightarrow>
     c = 9 \<or> c = 10 \<or> c = 11 \<or> c = 12 \<or> c = 13 \<or> c = 32 \<or> c = 160 \<or> c = 5760 \<or>
     (8192 \<le> c \<and> c \<le> 8202) \<or> c = 8232 \<or> c = 8233 \<or> c = 8239 \<or> c = 8287 \<or>
     c = 12288 \<or> c = 65279"

text \<open>The class \<^verbatim>\<open>\d\<close>: the ten ASCII digits.\<close>

definition is_digit :: "nat \<Rightarrow> bool" where
  "is_digit c \<longleftrightarrow> 48 \<le> c \<and> c \<le> 57"

definition trim :: "jsstring \<Rightarrow> jsstring" where
  "trim s = rev (dropWhile is_space (rev (dropWhile is_space s)))"

text \<open>\<^verbatim>\<open>a.includes(n)\<close>: \<open>n\<close> occurs in \<open>a\<close> as a contiguous run.\<close>

fun js_includes :: "jsstring \<Rightarrow> jsstring \<Rightarrow> bool" where
  "js_includes [] n = (n = [])"
| "js_includes (c # cs) n = (take (length n) (c # cs) = n \<or> js_includes cs n)"

section \<open>The timestamp parser\<close>

text \<open>
  \<^verbatim>\<open>parseExifDateTime\<close> matches its argument against
  \<^verbatim>\<open>/^(\d{4}):(\d{2}):(\d{2})[ T](\d{2}):(\d{2})(?::(\d{2}))?$/\<close>.
  The two matchers below read one piece of the pattern off the front of the input and
  return what is left: \<open>digits n\<close> is \<^verbatim>\<open>(\d{n})\<close>, \<open>one_of p\<close> is a single code unit
  of the class \<open>p\<close>.
\<close>

definition digits :: "nat \<Rightarrow> jsstring \<Rightarrow> (jsstring \<times> jsstring) option" where
  "digits n s =
     (if n \<le> length s \<and> list_all is_digit (take n s) then Some (take n s, drop n s) else None)"

definition one_of :: "(nat \<Rightarrow> bool) \<Rightarrow> jsstring \<Rightarrow> jsstring option" where
  "one_of p s = (case s of [] \<Rightarrow> None | c # cs \<Rightarrow> if p c then Some cs else None)"

text \<open>The optional group \<^verbatim>\<open>(?::(\d{2}))?\<close> followed by \<^verbatim>\<open>$\<close>.\<close>

definition opt_seconds_end :: "jsstring \<Rightarrow> bool" where
  "opt_seconds_end s =
     (s = [] \<or>
      (case one_of (\<lambda>c. c = colon) s of
         None \<Rightarrow> False
       | Some r \<Rightarrow> (case digits 2 r of None \<Rightarrow> False | Some (ss, r') \<Rightarrow> r' = [])))"

definition parseExifDateTime :: "jsstring \<Rightarrow> (jsstring \<times> jsstring) option" where
  "parseExifDateTime dto =
     do {
       (y, r1) \<leftarrow> digits 4 dto;
       r2 \<leftarrow> one_of (\<lambda>c. c = colon) r1;
       (mo, r3) \<leftarrow> digits 2 r2;
       r4 \<leftarrow> one_of (\<lambda>c. c = colon) r3;
       (d, r5) \<leftarrow> digits 2 r4;
       r6 \<leftarrow> one_of (\<lambda>c. c = 32 \<or> c = 84) r5;
       (hh, r7) \<leftarrow> digits 2 r6;
       r8 \<leftarrow> one_of (\<lambda>c. c = colon) r7;
       (mm, r9) \<leftarrow> digits 2 r8;
       if opt_seconds_end r9
       then Some (y @ [hyphen] @ mo @ [hyphen] @ d, hh @ [colon] @ mm)
       else None
     }"

section \<open>The great-circle distance\<close>

text \<open>
  \<^verbatim>\<open>haversineMeters\<close> works in IEEE double arithmetic, and there the rounding decides
  the result: the sum \<^verbatim>\<open>a\<close> can come out above 1 (it does for the nearly antipodal points
  \<open>(8, 0)\<close> and \<open>(-8, 180)\<close>), and then \<^verbatim>\<open>Math.sqrt(1 - a)\<close> is NaN, and so is the
  distance. A double is therefore a finite real, an infinity or NaN. The two zeros are one value
  here: no comparison tells them apart.
\<close>

datatype double = Finite real | PosInf | NegInf | NaN

text \<open>The relational operator \<^verbatim>\<open>>\<close> on doubles: every comparison with NaN is false.\<close>

fun dgt :: "double \<Rightarrow> double \<Rightarrow> bool" where
  "dgt NaN y = False"
| "dgt x NaN = False"
| "dgt (Finite x) (Finite y) = (x > y)"
| "dgt PosInf PosInf = False"
| "dgt PosInf y = True"
| "dgt x PosInf = False"
| "dgt NegInf y = False"
| "dgt x NegInf = True"

text \<open>
  The rounded operations \<^verbatim>\<open>+ - * / **\<close>, the functions \<^verbatim>\<open>Math.sin\<close>, \<^verbatim>\<open>Math.cos\<close>,
  \<^verbatim>\<open>Math.sqrt\<close>, \<^verbatim>\<open>Math.atan2\<close> and the constant \<^verbatim>\<open>Math.PI\<close> belong to the runtime,
  not to the program: they are parameters of the model.
\<close>

record FloatOps =
  add_d :: "double \<Rightarrow> double \<Rightarrow> double"
  sub_d :: "double \<Rightarrow> double \<Rightarrow> double"
  mul_d :: "double \<Rightarrow> double \<Rightarrow> double"
  div_d :: "double \<Rightarrow> double \<Rightarrow> double"
  pow_d :: "double \<Rightarrow> double \<Rightarrow> double"
  sin_d :: "double \<Rightarrow> double"
  cos_d :: "double \<Rightarrow> double"
  sqrt_d :: "double \<Rightarrow> double"
  atan2_d :: "double \<Rightarrow> double \<Rightarrow> double"
  pi_d :: double

definition toRad :: "FloatOps \<Rightarrow> double \<Rightarrow> double" where
  "toRad fl deg = div_d fl (mul_d fl deg (pi_d fl)) (Finite 180)"

definition haversineMeters ::
  "FloatOps \<Rightarrow> double \<Rightarrow> double \<Rightarrow> double \<Rightarrow> double \<Rightarrow> double" where
  "haversineMeters fl lat1 lon1 lat2 lon2 =
     (let R = Finite 6371000;
          dLat = toRad fl (sub_d fl lat2 lat1);
          dLon = toRad fl (sub_d fl lon2 lon1);
          a = add_d fl
                (pow_d fl (sin_d fl (div_d fl dLat (Finite 2))) (Finite 2))
                (mul_d fl
                   (mul_d fl (cos_d fl (toRad fl lat1)) (cos_d fl (toRad fl lat2)))
                   (pow_d fl (sin_d fl (div_d fl dLon (Finite 2))) (Finite 2)));
          c = mul_d fl (Finite 2)
                (atan2_d fl (sqrt_d fl a) (sqrt_d fl (sub_d fl (Finite 1) a)))
      in mul_d fl R c)"

section \<open>The output folder's slug\<close>

text \<open>\<^verbatim>\<open>s.replace(/\s+/g, "-")\<close>: scanning from the left, every match is a maximal run.\<close>

function replace_space_runs :: "jsstring \<Rightarrow> jsstring" where
  "replace_space_runs [] = []"
| "replace_space_runs (c # cs) =
     (if is_space c then hyphen # replace_space_runs (dropWhile is_space cs)
      else c # replace_space_runs cs)"
  by pat_completeness auto
termination
  by (relation "measure length") (auto simp: length_dropWhile_le le_imp_less_Suc)

text \<open>
  \<^verbatim>\<open>v.split(ch)\<close> for a one-unit separator, and \<^verbatim>\<open>parts.join(sep)\<close>.
  \<^verbatim>\<open>"".split(ch)\<close> is the one-element array \<^verbatim>\<open>[""]\<close>.
\<close>

fun split_on :: "nat \<Rightarrow> jsstring \<Rightarrow> jsstring list" where
  "split_on ch [] = [[]]"
| "split_on ch (c # cs) =
     (if c = ch then [] # split_on ch cs
      else (case split_on ch cs of [] \<Rightarrow> [[c]] | p # ps \<Rightarrow> (c # p) # ps))"

fun join :: "jsstring \<Rightarrow> jsstring list \<Rightarrow> jsstring" where
  "join sep [] = []"
| "join sep [p] = p"
| "join sep (p # q # ps) = p @ sep @ join sep (q # ps)"

text \<open>The nine characters of the loop: \<^verbatim>\<open>/ \ : * ? " < > |\<close>.\<close>

definition reserved :: "nat list" where
  "reserved = [47, 92, 58, 42, 63, 34, 60, 62, 124]"

text \<open>\<^verbatim>\<open>v.replace(/--+/g, "-")\<close>: a match starts at a hyphen that another hyphen follows.\<close>

function collapse_hyphens :: "jsstring \<Rightarrow> jsstring" where
  "collapse_hyphens [] = []"
| "collapse_hyphens (c # cs) =
     (if c = hyphen \<and> (case cs of [] \<Rightarrow> False | d # _ \<Rightarrow> d = hyphen)
      then hyphen # collapse_hyphens (dropWhile (\<lambda>x. x = hyphen) cs)
      else c # collapse_hyphens cs)"
  by pat_completeness auto
termination
  by (relation "measure length") (auto simp: length_dropWhile_le le_imp_less_Suc)

definition promptSlug :: "jsstring \<Rightarrow> jsstring" where
  "promptSlug s =
     (let v = replace_space_runs s;
          v = foldl (\<lambda>v ch. join [hyphen] (split_on ch v)) v reserved;
          v = collapse_hyphens v
      in v)"

text \<open>
  The reference transformation, following the specification's words. \<open>squeeze p h\<close>
  replaces every maximal run of code units satisfying \<open>p\<close> by the single unit \<open>h\<close>: a unit
  of a run is dropped while the run goes on, and the last one becomes \<open>h\<close>.
  Step (a) squeezes white space, step (b) maps the reserved characters one by one, and
  step (c) squeezes hyphens (for a run of one hyphen that is no change).
\<close>

fun squeeze :: "(nat \<Rightarrow> bool) \<Rightarrow> nat \<Rightarrow> jsstring \<Rightarrow> jsstring" where
  "squeeze p h [] = []"
| "squeeze p h [c] = (if p c then [h] else [c])"
| "squeeze p h (c # d # cs) =
     (if p c then (if p d then squeeze p h (d # cs) else h # squeeze p h (d # cs))
      else c # squeeze p h (d # cs))"

definition slug_reference :: "jsstring \<Rightarrow> jsstring" where
  "slug_reference s =
     squeeze (\<lambda>c. c = hyphen) hyphen
       (map (\<lambda>c. if c \<in> set reserved then hyphen else c)
         (squeeze is_space hyphen s))"

text \<open>Already-clean input: no white space, no reserved character, no two hyphens in a row.\<close>

fun no_double_hyphen :: "jsstring \<Rightarrow> bool" where
  "no_double_hyphen (c # d # cs) = (\<not> (c = hyphen \<and> d = hyphen) \<and> no_double_hyphen (d # cs))"
| "no_double_hyphen _ = True"

definition clean :: "jsstring \<Rightarrow> bool" where
  "clean s \<longleftrightarrow> (\<forall>c \<in> set s. \<not> is_space c \<and> c \<notin> set reserved) \<and> no_double_hyphen s"

section \<open>Range tests on strings\<close>

definition inDateRange :: "jsstring \<Rightarrow> jsstring option \<Rightarrow> jsstring option \<Rightarrow> bool" where
  "inDateRange dateStr from to =
     (if \<not> truthy from \<and> \<not> truthy to then True
      else if (case from of None \<Rightarrow> False | Some f \<Rightarrow> f \<noteq> [] \<and> dateStr < f) then False
      else if (case to of None \<Rightarrow> False | Some t \<Rightarrow> t \<noteq> [] \<and> dateStr > t) then False
      else True)"

definition inTimeWindow :: "jsstring \<Rightarrow> jsstring option \<Rightarrow> jsstring option \<Rightarrow> bool" where
  "inTimeWindow hhmm from to =
     (if \<not> truthy from \<and> \<not> truthy to then True
      else if (case from of None \<Rightarrow> False | Some f \<Rightarrow> f \<noteq> [] \<and> hhmm < f) then False
      else if (case to of None \<Rightarrow> False | Some t \<Rightarrow> t \<noteq> [] \<and> hhmm > t) then False
      else True)"

text \<open>\<^verbatim>\<open>firstNonEmpty(...vals)\<close> and \<^verbatim>\<open>norm(v)\<close>; \<open>lower\<close> is \<^verbatim>\<open>toLowerCase\<close>.\<close>

fun firstNonEmpty :: "jsstring option list \<Rightarrow> jsstring" where
  "firstNonEmpty [] = []"
| "firstNonEmpty (v # vs) =
     (case v of
        None \<Rightarrow> firstNonEmpty vs
      | Some s \<Rightarrow> if s \<noteq> [] \<and> trim s \<noteq> [] then s else firstNonEmpty vs)"

definition norm_str :: "(jsstring \<Rightarrow> jsstring) \<Rightarrow> jsstring option \<Rightarrow> jsstring" where
  "norm_str lower v = lower (trim (case v of None \<Rightarrow> [] | Some s \<Rightarrow> s))"

section \<open>The data model\<close>

text \<open>
  The zod schemas of the tool input. Fields the schema marks \<^verbatim>\<open>optional()\<close> are options.
  \<open>bbox\<close> is \<^verbatim>\<open>[minLon, minLat, maxLon, maxLat]\<close>. \<open>copy_mode\<close> is the literal
  \<^verbatim>\<open>"copy"\<close> or absent, so it carries no more than a \<open>unit option\<close>.
\<close>

record DateRange =
  date_from :: "jsstring option"
  date_to :: "jsstring option"

record TimeOfDay =
  time_from :: "jsstring option"
  time_to :: "jsstring option"

record IsoRange =
  iso_min :: "real option"
  iso_max :: "real option"

record AltRange =
  alt_min :: "real option"
  alt_max :: "real option"

record CameraModel =
  cam_make :: "jsstring option"
  cam_model :: "jsstring option"

record LatLon =
  lat :: real
  lon :: real

record Location =
  bbox :: "(real \<times> real \<times> real \<times> real) option"
  center :: "LatLon option"
  radius_m :: "real option"

record FilterAndCopyInput =
  base_dir :: "jsstring option"
  output_root :: "jsstring option"
  original_prompt :: jsstring
  copy_mode :: "unit option"
  date_range :: "DateRange option"
  time_of_day :: "TimeOfDay option"
  iso :: "IsoRange option"
  artist :: "jsstring option"
  camera :: "CameraModel option"
  location :: "Location option"
  altitude :: "AltRange option"

text \<open>
  One record of the extraction step. The records are parsed JSON, so every field may be
  missing; a numeric field is \<open>Some x\<close> exactly when \<^verbatim>\<open>typeof\<close> gives \<^verbatim>\<open>"number"\<close>.
\<close>

record ExifData =
  SourceFile :: "jsstring option"
  DateTimeOriginal :: "jsstring option"
  ISO :: "real option"
  Artist :: "jsstring option"
  By_line :: "jsstring option"
  Creator :: "jsstring option"
  Make :: "jsstring option"
  Model :: "jsstring option"
  GPSLatitude :: "real option"
  GPSLongitude :: "real option"
  GPSAltitude :: "real option"
  GPSAltitudeRef :: "real option"

record MatchReport =
  scanned :: nat
  matched :: nat
  skipped_missing_meta :: nat
  output_dir :: jsstring
  files :: "jsstring list"

section \<open>The filter, dimension by dimension\<close>

text \<open>
  Every \<^verbatim>\<open>continue\<close> of the loop of \<^verbatim>\<open>filterAndCopy\<close> that follows a successful parse
  logs why the record is dropped. The reasons are the log lines.
\<close>

datatype SkipReason =
    SkipDateRange | SkipTimeWindow | SkipIsoMin | SkipIsoMax | SkipArtist
  | SkipCameraMake | SkipCameraModel
  | SkipGpsMissing | SkipGpsOutsideRadius | SkipGpsOutsideBbox
  | SkipAltitudeMissing | SkipAltitudeMin | SkipAltitudeMax

text \<open>
  Each block of the loop body is a function that returns the reason of its
  \<^verbatim>\<open>continue\<close>, or \<open>None\<close> when control falls through to the next block.
\<close>

definition or_empty :: "jsstring option \<Rightarrow> jsstring" where
  "or_empty v = (case v of None \<Rightarrow> [] | Some s \<Rightarrow> s)"

definition date_block :: "FilterAndCopyInput \<Rightarrow> jsstring \<Rightarrow> SkipReason option" where
  "date_block input dateStr =
     (let from = or_empty (case date_range input of None \<Rightarrow> None | Some dr \<Rightarrow> date_from dr);
          to = or_empty (case date_range input of None \<Rightarrow> None | Some dr \<Rightarrow> date_to dr)
      in if \<not> inDateRange dateStr (Some from) (Some to) then Some SkipDateRange else None)"

definition time_block :: "FilterAndCopyInput \<Rightarrow> jsstring \<Rightarrow> SkipReason option" where
  "time_block input hhmm =
     (case time_of_day input of
        None \<Rightarrow> None
      | Some tod \<Rightarrow>
          if \<not> inTimeWindow hhmm (time_from tod) (time_to tod) then Some SkipTimeWindow
          else None)"

definition iso_block :: "FilterAndCopyInput \<Rightarrow> ExifData \<Rightarrow> SkipReason option" where
  "iso_block input it =
     (case iso input of
        None \<Rightarrow> None
      | Some r \<Rightarrow>
          (case ISO it of
             None \<Rightarrow> None
           | Some v \<Rightarrow>
               if (case iso_min r of None \<Rightarrow> False | Some m \<Rightarrow> v < m) then Some SkipIsoMin
               else if (case iso_max r of None \<Rightarrow> False | Some m \<Rightarrow> v > m) then Some SkipIsoMax
               else None))"

definition artist_block ::
  "(jsstring \<Rightarrow> jsstring) \<Rightarrow> FilterAndCopyInput \<Rightarrow> ExifData \<Rightarrow> SkipReason option" where
  "artist_block lower input it =
     (case artist input of
        None \<Rightarrow> None
      | Some ar \<Rightarrow>
          if ar \<noteq> [] \<and> trim ar \<noteq> [] then
            (let a = norm_str lower (Some (firstNonEmpty [Artist it, Creator it, By_line it]));
                 needle = norm_str lower (Some ar)
             in if a = [] \<or> \<not> js_includes a needle then Some SkipArtist else None)
          else None)"

definition camera_block ::
  "(jsstring \<Rightarrow> jsstring) \<Rightarrow> FilterAndCopyInput \<Rightarrow> ExifData \<Rightarrow> SkipReason option" where
  "camera_block lower input it =
     (case camera input of
        None \<Rightarrow> None
      | Some cam \<Rightarrow>
          if truthy (cam_make cam) \<and>
             \<not> js_includes (norm_str lower (Make it)) (norm_str lower (cam_make cam))
          then Some SkipCameraMake
          else if truthy (cam_model cam) \<and>
             \<not> js_includes (norm_str lower (Model it)) (norm_str lower (cam_model cam))
          then Some SkipCameraModel
          else None)"

definition location_block ::
  "FloatOps \<Rightarrow> FilterAndCopyInput \<Rightarrow> ExifData \<Rightarrow> SkipReason option" where
  "location_block fl input it =
     (case location input of
        None \<Rightarrow> None
      | Some loc \<Rightarrow>
          (let hasBbox = (bbox loc \<noteq> None);
               hasCenterRadius = (center loc \<noteq> None \<and> truthy_num (radius_m loc))
           in if hasBbox \<or> hasCenterRadius then
                (case (GPSLatitude it, GPSLongitude it) of
                   (Some gla, Some glo) \<Rightarrow>
                     if hasCenterRadius then
                       (case (center loc, radius_m loc) of
                          (Some c, Some r) \<Rightarrow>
                            if dgt (haversineMeters fl (Finite (lat c)) (Finite (lon c))
                                      (Finite gla) (Finite glo))
                                   (Finite r)
                            then Some SkipGpsOutsideRadius else None
                        | _ \<Rightarrow> None)
                     else if hasBbox then
                       (case bbox loc of
                          Some (minLon, minLat, maxLon, maxLat) \<Rightarrow>
                            if \<not> (glo \<ge> minLon \<and> glo \<le> maxLon \<and> gla \<ge> minLat \<and> gla \<le> maxLat)
                            then Some SkipGpsOutsideBbox else None
                        | None \<Rightarrow> None)
                     else None
                 | _ \<Rightarrow> Some SkipGpsMissing)
              else None))"

definition altitude_block :: "FilterAndCopyInput \<Rightarrow> ExifData \<Rightarrow> SkipReason option" where
  "altitude_block input it =
     (case altitude input of
        None \<Rightarrow> None
      | Some r \<Rightarrow>
          if alt_min r \<noteq> None \<or> alt_max r \<noteq> None then
            (case GPSAltitude it of
               None \<Rightarrow> Some SkipAltitudeMissing
             | Some galt \<Rightarrow>
                 (let alt = (if GPSAltitudeRef it = Some 1 then - galt else galt)
                  in if (case alt_min r of None \<Rightarrow> False | Some m \<Rightarrow> alt < m)
                     then Some SkipAltitudeMin
                     else if (case alt_max r of None \<Rightarrow> False | Some m \<Rightarrow> alt > m)
                     then Some SkipAltitudeMax
                     else None))
          else None)"

text \<open>The blocks run in the order of the source; the first \<^verbatim>\<open>continue\<close> ends the iteration.\<close>

fun first_skip :: "SkipReason option list \<Rightarrow> SkipReason option" where
  "first_skip [] = None"
| "first_skip (None # bs) = first_skip bs"
| "first_skip (Some r # bs) = Some r"

datatype MatchOutcome = MissingMeta | Excluded SkipReason | Included

definition matchRecord ::
  "FloatOps \<Rightarrow> (jsstring \<Rightarrow> jsstring) \<Rightarrow> FilterAndCopyInput \<Rightarrow> ExifData
     \<Rightarrow> MatchOutcome" where
  "matchRecord fl lower input it =
     (case DateTimeOriginal it of
        None \<Rightarrow> MissingMeta
      | Some dto \<Rightarrow>
          if dto = [] then MissingMeta
          else
            (case parseExifDateTime dto of
               None \<Rightarrow> MissingMeta
             | Some (dateStr, hhmm) \<Rightarrow>
                 (case first_skip
                         [date_block input dateStr, time_block input hhmm,
                          iso_block input it, artist_block lower input it,
                          camera_block lower input it, location_block fl input it,
                          altitude_block input it] of
                    Some r \<Rightarrow> Excluded r
                  | None \<Rightarrow> Included)))"

section \<open>The copy loop and the report\<close>

text \<open>
  What \<^verbatim>\<open>filterAndCopy\<close> takes from outside the program: the clock, the path functions
  of Node, \<^verbatim>\<open>toLowerCase\<close>, the floating-point operations, and the file system \<open>'fs\<close> with the operations the function
  awaits. An operation that can throw returns \<open>None\<close> for the exception.
  \<^verbatim>\<open>exiftoolIndex\<close> runs the external extraction tool and parses its output.
\<close>

record 'fs Sys =
  todayKST :: jsstring
  path_join :: "jsstring \<Rightarrow> jsstring \<Rightarrow> jsstring"
  path_basename :: "jsstring \<Rightarrow> jsstring"
  toLowerCase :: "jsstring \<Rightarrow> jsstring"
  float_ops :: FloatOps
  mkdir :: "'fs \<Rightarrow> jsstring \<Rightarrow> 'fs option"
  exiftoolIndex :: "'fs \<Rightarrow> jsstring \<Rightarrow> ExifData list option"
  stat_ok :: "'fs \<Rightarrow> jsstring \<Rightarrow> bool"
  copyFile :: "'fs \<Rightarrow> jsstring \<Rightarrow> jsstring \<Rightarrow> 'fs option"

datatype Failure = BaseDirRequired | MkdirFailed | ExiftoolFailed | CopyFailed

text \<open>The variables of the loop: the three counters, the list of destinations, the file system.\<close>

record 'fs LoopState =
  st_scanned :: nat
  st_matched :: nat
  st_skipped :: nat
  st_files :: "jsstring list"
  st_fs :: 'fs

definition loop_body ::
  "'fs Sys \<Rightarrow> FilterAndCopyInput \<Rightarrow> jsstring \<Rightarrow> 'fs LoopState \<Rightarrow> ExifData
     \<Rightarrow> Failure + 'fs LoopState" where
  "loop_body sys input outDir st0 it =
     (let st = st0\<lparr>st_scanned := st_scanned st0 + 1\<rparr> in
      case matchRecord (float_ops sys) (toLowerCase sys) input it of
        MissingMeta \<Rightarrow> Inr (st\<lparr>st_skipped := st_skipped st + 1\<rparr>)
      | Excluded r \<Rightarrow> Inr st
      | Included \<Rightarrow>
          (case SourceFile it of
             None \<Rightarrow> Inr st
           | Some src \<Rightarrow>
               if src = [] then Inr st
               else if \<not> stat_ok sys (st_fs st) src then Inr st
               else
                 (let dst = path_join sys outDir (path_basename sys src) in
                  case copyFile sys (st_fs st) src dst of
                    None \<Rightarrow> Inl CopyFailed
                  | Some fs' \<Rightarrow>
                      Inr (st\<lparr>st_fs := fs', st_files := st_files st @ [dst],
                              st_matched := st_matched st + 1\<rparr>))))"

fun run_loop ::
  "'fs Sys \<Rightarrow> FilterAndCopyInput \<Rightarrow> jsstring \<Rightarrow> 'fs LoopState \<Rightarrow> ExifData list
     \<Rightarrow> Failure + 'fs LoopState" where
  "run_loop sys input outDir st [] = Inr st"
| "run_loop sys input outDir st (it # items) =
     (case loop_body sys input outDir st it of
        Inl e \<Rightarrow> Inl e
      | Inr st' \<Rightarrow> run_loop sys input outDir st' items)"

definition filterAndCopy ::
  "'fs Sys \<Rightarrow> 'fs \<Rightarrow> jsstring \<Rightarrow> FilterAndCopyInput \<Rightarrow> Failure + (MatchReport \<times> 'fs)" where
  "filterAndCopy sys fs outRoot input =
     (case base_dir input of
        None \<Rightarrow> Inl BaseDirRequired
      | Some bd \<Rightarrow>
          if bd = [] \<or> trim bd = [] then Inl BaseDirRequired
          else
            (let outDir = path_join sys outRoot
                            (todayKST sys @ [95] @ promptSlug (original_prompt input)) in
             case mkdir sys fs outDir of
               None \<Rightarrow> Inl MkdirFailed
             | Some fs1 \<Rightarrow>
                 (case exiftoolIndex sys fs1 bd of
                    None \<Rightarrow> Inl ExiftoolFailed
                  | Some items \<Rightarrow>
                      (case run_loop sys input outDir
                              \<lparr>st_scanned = 0, st_matched = 0, st_skipped = 0,
                               st_files = [], st_fs = fs1\<rparr> items of
                         Inl e \<Rightarrow> Inl e
                       | Inr st \<Rightarrow>
                           Inr (\<lparr>scanned = st_scanned st, matched = st_matched st,
                                 skipped_missing_meta = st_skipped st,
                                 output_dir = outDir, files = st_files st\<rparr>,
                                st_fs st)))))"

section \<open>The timestamp pattern, in the specification's words\<close>

text \<open>
  The specification describes the accepted timestamps by their shape: \<^verbatim>\<open>YYYY:MM:DD\<close>, a
  space or \<^verbatim>\<open>T\<close>, \<^verbatim>\<open>HH:MM\<close>, and optionally \<^verbatim>\<open>:SS\<close>. The shape is written here slot
  by slot, independently of the parser, so that the parser can be compared with it.
\<close>

datatype Slot = Digit | Colon | Sep

fun fits :: "Slot \<Rightarrow> nat \<Rightarrow> bool" where
  "fits Digit c = is_digit c"
| "fits Colon c = (c = colon)"
| "fits Sep c = (c = 32 \<or> c = 84)"

definition shape_minutes :: "Slot list" where
  "shape_minutes =
     [Digit, Digit, Digit, Digit, Colon, Digit, Digit, Colon, Digit, Digit, Sep,
      Digit, Digit, Colon, Digit, Digit]"

definition shape_seconds :: "Slot list" where
  "shape_seconds = shape_minutes @ [Colon, Digit, Digit]"

definition exif_pattern :: "jsstring \<Rightarrow> bool" where
  "exif_pattern s \<longleftrightarrow> list_all2 fits shape_minutes s \<or> list_all2 fits shape_seconds s"

section \<open>The counters of the loop\<close>

text \<open>What the report promises about its counters, as a property of the loop variables.\<close>

definition counters_ok :: "'fs LoopState \<Rightarrow> bool" where
  "counters_ok st \<longleftrightarrow>
     st_matched st = length (st_files st) \<and> st_matched st + st_skipped st \<le> st_scanned st"

section \<open>A sample run\<close>

text \<open>
  Concrete data on which the definitions are evaluated below: a record with a well-formed
  timestamp and no other metadata, an input with no filter, the same input restricted to
  January 2024, four records (one copied, one without a timestamp, one outside the date
  range, one whose file is gone), and a file system that is the list of the paths that exist.
\<close>

definition example_record :: ExifData where
  "example_record =
     \<lparr>SourceFile = Some (js ''/photos/a.jpg''),
      DateTimeOriginal = Some (js ''2024:01:15 10:00:00''),
      ISO = None, Artist = None, By_line = None, Creator = None, Make = None, Model = None,
      GPSLatitude = None, GPSLongitude = None, GPSAltitude = None, GPSAltitudeRef = None\<rparr>"

definition example_input :: FilterAndCopyInput where
  "example_input =
     \<lparr>base_dir = Some (js ''/photos''), output_root = None,
      original_prompt = js ''Seoul trip: day 1!'', copy_mode = None,
      date_range = None, time_of_day = None, iso = None, artist = None, camera = None,
      location = None, altitude = None\<rparr>"

definition example_items :: "ExifData list" where
  "example_items =
     [example_record,
      example_record\<lparr>SourceFile := Some (js ''/photos/b.jpg''), DateTimeOriginal := None\<rparr>,
      example_record\<lparr>SourceFile := Some (js ''/photos/c.jpg''),
                     DateTimeOriginal := Some (js ''2023:12:31 23:59:00'')\<rparr>,
      example_record\<lparr>SourceFile := Some (js ''/photos/gone.jpg'')\<rparr>]"

text \<open>
  A runtime without rounding for the sample data: exact real arithmetic on finite values,
  NaN wherever an argument is not finite or the exact result is not a real number.
\<close>

definition atan2_exact :: "real \<Rightarrow> real \<Rightarrow> real" where
  "atan2_exact y x =
     (if 0 < x then arctan (y / x)
      else if x < 0 then (if 0 \<le> y then arctan (y / x) + pi else arctan (y / x) - pi)
      else if 0 < y then pi / 2
      else if y < 0 then - (pi / 2)
      else 0)"

definition exact1 :: "(real \<Rightarrow> bool) \<Rightarrow> (real \<Rightarrow> real) \<Rightarrow> double \<Rightarrow> double" where
  "exact1 ok f x = (case x of Finite a \<Rightarrow> if ok a then Finite (f a) else NaN | _ \<Rightarrow> NaN)"

definition exact2 ::
  "(real \<Rightarrow> real \<Rightarrow> bool) \<Rightarrow> (real \<Rightarrow> real \<Rightarrow> real) \<Rightarrow> double \<Rightarrow> double \<Rightarrow> double" where
  "exact2 ok f x y =
     (case (x, y) of
        (Finite a, Finite b) \<Rightarrow> if ok a b then Finite (f a b) else NaN
      | _ \<Rightarrow> NaN)"

definition exact_ops :: FloatOps where
  "exact_ops =
     \<lparr>add_d = exact2 (\<lambda>a b. True) (+),
      sub_d = exact2 (\<lambda>a b. True) (-),
      mul_d = exact2 (\<lambda>a b. True) (*),
      div_d = exact2 (\<lambda>a b. b \<noteq> 0) (/),
      pow_d = exact2 (\<lambda>a b. b = 2) (\<lambda>a b. a * a),
      sin_d = exact1 (\<lambda>a. True) sin,
      cos_d = exact1 (\<lambda>a. True) cos,
      sqrt_d = exact1 (\<lambda>a. 0 \<le> a) sqrt,
      atan2_d = exact2 (\<lambda>a b. True) atan2_exact,
      pi_d = Finite pi\<rparr>"

definition example_sys :: "jsstring list Sys" where
  "example_sys =
     \<lparr>todayKST = js ''2024-02-01'',
      path_join = (\<lambda>a b. a @ [47] @ b),
      path_basename = (\<lambda>p. rev (takeWhile (\<lambda>c. c \<noteq> 47) (rev p))),
      toLowerCase = map (\<lambda>c. if 65 \<le> c \<and> c \<le> 90 then c + 32 else c),
      float_ops = exact_ops,
      mkdir = (\<lambda>fs d. Some (fs @ [d])),
      exiftoolIndex = (\<lambda>fs d. Some example_items),
      stat_ok = (\<lambda>fs p. p \<in> set fs),
      copyFile = (\<lambda>fs src dst. if src \<in> set fs then Some (fs @ [dst]) else None)\<rparr>"

definition example_fs :: "jsstring list" where
  "example_fs = [js ''/photos/a.jpg'', js ''/photos/b.jpg'', js ''/photos/c.jpg'']"

definition january :: FilterAndCopyInput where
  "january = example_input\<lparr>date_range :=
      Some \<lparr>date_from = Some (js ''2024-01-01''), date_to = Some (js ''2024-01-31'')\<rparr>\<rparr>"

definition example_outdir :: jsstring where
  "example_outdir = js ''/out/2024-02-01_Seoul-trip-day-1!''"

definition example_copy :: jsstring where
  "example_copy = js ''/out/2024-02-01_Seoul-trip-day-1!/a.jpg''"

definition example_report :: MatchReport where
  "example_report =
     \<lparr>scanned = 4, matched = 1, skipped_missing_meta = 1,
      output_dir = example_outdir, files = [example_copy]\<rparr>"

definition seoul_bbox :: Location where
  "seoul_bbox = \<lparr>bbox = Some (126.76, 37.4, 127.18, 37.7), center = None, radius_m = None\<rparr>"

definition seoul_center :: LatLon where
  "seoul_center = \<lparr>lat = 37.5512, lon = 126.9882\<rparr>"

section \<open>Properties of the slug\<close>

lemma squeeze_run: "p c \<Longrightarrow> squeeze p h (c # cs) = h # squeeze p h (dropWhile p cs)"
  by (induction cs arbitrary: c) auto

lemma squeeze_skip: "\<not> p c \<Longrightarrow> squeeze p h (c # cs) = c # squeeze p h cs"
  by (cases cs) auto

lemma replace_space_runs_squeeze: "replace_space_runs s = squeeze is_space hyphen s"
  by (induction s rule: replace_space_runs.induct) (auto simp: squeeze_run squeeze_skip)

lemma split_on_not_Nil: "split_on ch s \<noteq> []"
  by (induction s) (auto split: list.splits)

lemma join_split_on: "join [h] (split_on ch s) = map (\<lambda>c. if c = ch then h else c) s"
proof (induction s)
  case Nil
  show ?case by simp
next
  case (Cons c cs)
  obtain p ps where sp: "split_on ch cs = p # ps"
    using split_on_not_Nil [of ch cs] by (cases "split_on ch cs") auto
  show ?case
  proof (cases "c = ch")
    case True
    with Cons sp show ?thesis by simp
  next
    case False
    have "join [h] ((c # p) # ps) = c # join [h] (p # ps)" by (cases ps) auto
    with False Cons sp show ?thesis by simp
  qed
qed

lemma foldl_map_replace:
  "foldl (\<lambda>v ch. map (\<lambda>c. if c = ch then h else c) v) v chs
     = map (\<lambda>c. if c \<in> set chs then h else c) v"
proof (induction chs arbitrary: v)
  case Nil
  show ?case by simp
next
  case (Cons ch chs)
  show ?case by (simp add: Cons)
qed

lemma foldl_split_join:
  "foldl (\<lambda>v ch. join [h] (split_on ch v)) v chs = map (\<lambda>c. if c \<in> set chs then h else c) v"
  by (simp only: join_split_on foldl_map_replace)

lemma collapse_hyphens_squeeze: "collapse_hyphens s = squeeze (\<lambda>c. c = hyphen) hyphen s"
proof (induction s rule: collapse_hyphens.induct)
  case 1
  show ?case by simp
next
  case (2 c cs)
  show ?case
  proof (cases "c = hyphen \<and> (case cs of [] \<Rightarrow> False | d # _ \<Rightarrow> d = hyphen)")
    case True
    with 2 show ?thesis by (simp add: squeeze_run)
  next
    case False
    with 2 show ?thesis by (cases cs) auto
  qed
qed

lemma promptSlug_is_reference: "promptSlug s = slug_reference s"
  by (simp add: promptSlug_def slug_reference_def replace_space_runs_squeeze foldl_split_join
      collapse_hyphens_squeeze)

lemma squeeze_none: "\<forall>c \<in> set s. \<not> p c \<Longrightarrow> squeeze p h s = s"
  by (induction s) (auto simp: squeeze_skip)

lemma squeeze_no_double: "no_double_hyphen s \<Longrightarrow> squeeze (\<lambda>c. c = hyphen) hyphen s = s"
  by (induction s rule: no_double_hyphen.induct) auto

lemma slug_reference_clean: "clean s \<Longrightarrow> slug_reference s = s"
  by (simp add: clean_def slug_reference_def squeeze_none squeeze_no_double map_idI)

lemma promptSlug_seoul: "promptSlug (js ''Seoul trip: day 1!'') = js ''Seoul-trip-day-1!''"
  by (simp add: promptSlug_def js_def is_space_def reserved_def)

text \<open>
  Claim C9. On every string \<^verbatim>\<open>promptSlug\<close> is the three-step reference transformation
  (white-space runs to one hyphen, then each reserved character to a hyphen, then runs of
  hyphens to one); so it leaves already-clean input unchanged, and it maps
  \<^verbatim>\<open>"Seoul trip: day 1!"\<close> to \<^verbatim>\<open>"Seoul-trip-day-1!"\<close>.
\<close>

theorem promptSlug_reference:
  "promptSlug s = slug_reference s
   \<and> (clean s \<longrightarrow> promptSlug s = s)
   \<and> promptSlug (js ''Seoul trip: day 1!'') = js ''Seoul-trip-day-1!''"
  by (simp add: promptSlug_is_reference slug_reference_clean
      promptSlug_seoul [unfolded promptSlug_is_reference])

theorem promptSlug_reference_witness:
  "clean (js ''Seoul-trip-day-1!'')
   \<and> promptSlug (js ''Seoul-trip-day-1!'') = js ''Seoul-trip-day-1!''
   \<and> promptSlug (js ''a  b'') = slug_reference (js ''a  b'')"
proof -
  have c: "clean (js ''Seoul-trip-day-1!'')"
    by (simp add: clean_def js_def is_space_def reserved_def)
  from promptSlug_reference [of "js ''Seoul-trip-day-1!''"] c
  have "promptSlug (js ''Seoul-trip-day-1!'') = js ''Seoul-trip-day-1!''" by blast
  with c promptSlug_reference [of "js ''a  b''"] show ?thesis by blast
qed

section \<open>Properties of the time window\<close>

text \<open>
  Claim C5. The bounds of a window are \<^verbatim>\<open>HH:MM\<close> strings, so a bound that is present is
  not the empty string (which the code treats like an absent bound); of this, only the
  non-emptiness of \<^verbatim>\<open>to\<close> is needed. On every such window a time matches exactly when
  \<^verbatim>\<open>from <= hhmm <= to\<close> in the lexicographic order of strings, both ends included, an
  absent bound being no restriction; and when \<^verbatim>\<open>from\<close> is above \<^verbatim>\<open>to\<close>, no time
  string at all matches.
\<close>

theorem inTimeWindow_inclusive:
  assumes "\<forall>t. to = Some t \<longrightarrow> t \<noteq> []"
  shows "(inTimeWindow hhmm from to \<longleftrightarrow>
            (\<forall>f. from = Some f \<longrightarrow> f \<le> hhmm) \<and> (\<forall>t. to = Some t \<longrightarrow> hhmm \<le> t))
       \<and> (\<forall>f t. from = Some f \<longrightarrow> to = Some t \<longrightarrow> t < f \<longrightarrow> \<not> inTimeWindow hhmm from to)"
  using assms
  by (cases "from"; cases to) (auto simp: inTimeWindow_def truthy_def not_less)

theorem inTimeWindow_inclusive_witness:
  "js ''13:00'' \<noteq> [] \<and> js ''06:00'' \<noteq> []
   \<and> js ''10:00'' \<le> js ''12:00'' \<and> js ''12:00'' \<le> js ''13:00''
   \<and> inTimeWindow (js ''12:00'') (Some (js ''10:00'')) (Some (js ''13:00''))
   \<and> \<not> inTimeWindow (js ''13:01'') (Some (js ''10:00'')) (Some (js ''13:00''))
   \<and> js ''06:00'' < js ''22:00''
   \<and> \<not> inTimeWindow (js ''23:30'') (Some (js ''22:00'')) (Some (js ''06:00''))"
proof -
  have a: "js ''13:00'' \<noteq> []" "js ''06:00'' \<noteq> []"
    "js ''10:00'' \<le> js ''12:00''" "js ''12:00'' \<le> js ''13:00''"
    "js ''06:00'' < js ''22:00''" "\<not> js ''13:01'' \<le> js ''13:00''"
    by (simp_all add: js_def)
  have h1: "\<forall>t. Some (js ''13:00'') = Some t \<longrightarrow> t \<noteq> []"
    and h2: "\<forall>t. Some (js ''06:00'') = Some t \<longrightarrow> t \<noteq> []"
    using a by simp_all
  from a inTimeWindow_inclusive [OF h1, of "js ''12:00''" "Some (js ''10:00'')", THEN conjunct1]
  have 1: "inTimeWindow (js ''12:00'') (Some (js ''10:00'')) (Some (js ''13:00''))" by simp
  from a inTimeWindow_inclusive [OF h1, of "js ''13:01''" "Some (js ''10:00'')", THEN conjunct1]
  have 2: "\<not> inTimeWindow (js ''13:01'') (Some (js ''10:00'')) (Some (js ''13:00''))" by simp
  from a inTimeWindow_inclusive [OF h2, of "js ''23:30''" "Some (js ''22:00'')", THEN conjunct2]
  have 3: "\<not> inTimeWindow (js ''23:30'') (Some (js ''22:00'')) (Some (js ''06:00''))" by blast
  from a 1 2 3 show ?thesis by blast
qed

section \<open>The verdict of the filter and its blocks\<close>

lemma first_skip_None: "first_skip bs = None \<longleftrightarrow> (\<forall>b \<in> set bs. b = None)"
  by (induction bs rule: first_skip.induct) auto

lemma first_skip_Some: "first_skip bs = Some r \<Longrightarrow> Some r \<in> set bs"
  by (induction bs rule: first_skip.induct) auto

lemma outcome_Included:
  "(case x of None \<Rightarrow> Included | Some r \<Rightarrow> Excluded r) = Included \<longleftrightarrow> x = None"
  by (cases x) auto

lemma outcome_Excluded:
  "(case x of None \<Rightarrow> Included | Some r' \<Rightarrow> Excluded r') = Excluded r \<longleftrightarrow> x = Some r"
  by (cases x) auto

lemma matchRecord_Included:
  "matchRecord fl lower input it = Included \<longleftrightarrow>
     (\<exists>dto dateStr hhmm. DateTimeOriginal it = Some dto \<and> dto \<noteq> []
        \<and> parseExifDateTime dto = Some (dateStr, hhmm)
        \<and> date_block input dateStr = None \<and> time_block input hhmm = None
        \<and> iso_block input it = None \<and> artist_block lower input it = None
        \<and> camera_block lower input it = None \<and> location_block fl input it = None
        \<and> altitude_block input it = None)"
proof (cases "DateTimeOriginal it")
  case None
  then show ?thesis by (simp add: matchRecord_def)
next
  case (Some dto)
  show ?thesis
  proof (cases "parseExifDateTime dto")
    case None
    with Some show ?thesis by (simp add: matchRecord_def)
  next
    case (Some p)
    obtain dateStr hhmm where p: "p = (dateStr, hhmm)" by (cases p)
    from \<open>DateTimeOriginal it = Some dto\<close> Some p show ?thesis
      by (simp add: matchRecord_def outcome_Included first_skip_None)
  qed
qed

lemma matchRecord_Excluded:
  "matchRecord fl lower input it = Excluded r \<Longrightarrow>
     (\<exists>dto dateStr hhmm. DateTimeOriginal it = Some dto
        \<and> parseExifDateTime dto = Some (dateStr, hhmm)
        \<and> (date_block input dateStr = Some r \<or> time_block input hhmm = Some r
           \<or> iso_block input it = Some r \<or> artist_block lower input it = Some r
           \<or> camera_block lower input it = Some r \<or> location_block fl input it = Some r
           \<or> altitude_block input it = Some r))"
proof -
  assume ex: "matchRecord fl lower input it = Excluded r"
  then obtain dto where dto: "DateTimeOriginal it = Some dto"
    by (cases "DateTimeOriginal it") (simp_all add: matchRecord_def)
  with ex obtain dateStr hhmm where p: "parseExifDateTime dto = Some (dateStr, hhmm)"
    by (cases "parseExifDateTime dto") (auto simp: matchRecord_def split: if_splits)
  from ex dto p have "first_skip [date_block input dateStr, time_block input hhmm,
             iso_block input it, artist_block lower input it,
             camera_block lower input it, location_block fl input it,
             altitude_block input it] = Some r"
    by (simp add: matchRecord_def outcome_Excluded split: if_splits)
  from first_skip_Some [OF this] dto p show ?thesis by auto
qed

lemma date_block_absent: "date_range input = None \<Longrightarrow> date_block input d = None"
  by (simp add: date_block_def or_empty_def inDateRange_def truthy_def)

lemma time_block_absent: "time_of_day input = None \<Longrightarrow> time_block input h = None"
  by (simp add: time_block_def)

lemma iso_block_absent: "iso input = None \<Longrightarrow> iso_block input it = None"
  by (simp add: iso_block_def)

lemma artist_block_absent: "artist input = None \<Longrightarrow> artist_block lower input it = None"
  by (simp add: artist_block_def)

lemma camera_block_absent: "camera input = None \<Longrightarrow> camera_block lower input it = None"
  by (simp add: camera_block_def)

lemma location_block_absent: "location input = None \<Longrightarrow> location_block fl input it = None"
  by (simp add: location_block_def)

lemma altitude_block_absent: "altitude input = None \<Longrightarrow> altitude_block input it = None"
  by (simp add: altitude_block_def)

lemma date_block_reasons: "date_block input d = Some r \<Longrightarrow> r = SkipDateRange"
  by (auto simp: date_block_def Let_def split: if_splits)

lemma time_block_reasons: "time_block input d = Some r \<Longrightarrow> r = SkipTimeWindow"
  by (auto simp: time_block_def Let_def split: if_splits option.splits)

lemma iso_block_reasons: "iso_block input it = Some r \<Longrightarrow> r = SkipIsoMin \<or> r = SkipIsoMax"
  by (auto simp: iso_block_def Let_def split: if_splits option.splits)

lemma artist_block_reasons: "artist_block lower input it = Some r \<Longrightarrow> r = SkipArtist"
  by (auto simp: artist_block_def Let_def split: if_splits option.splits)

lemma camera_block_reasons:
  "camera_block lower input it = Some r \<Longrightarrow> r = SkipCameraMake \<or> r = SkipCameraModel"
  by (auto simp: camera_block_def Let_def split: if_splits option.splits)

lemma location_block_reasons:
  "location_block fl input it = Some r \<Longrightarrow>
     r = SkipGpsMissing \<or> r = SkipGpsOutsideRadius \<or> r = SkipGpsOutsideBbox"
  by (auto simp: location_block_def Let_def split: if_splits option.splits)

lemma altitude_block_reasons:
  "altitude_block input it = Some r \<Longrightarrow>
     r = SkipAltitudeMissing \<or> r = SkipAltitudeMin \<or> r = SkipAltitudeMax"
  by (auto simp: altitude_block_def Let_def split: if_splits option.splits)

lemma excluded_location:
  assumes "matchRecord fl lower input it = Excluded r"
    "r = SkipGpsMissing \<or> r = SkipGpsOutsideRadius \<or> r = SkipGpsOutsideBbox"
  shows "location_block fl input it = Some r"
  using matchRecord_Excluded [OF assms(1)] assms(2)
  by (auto dest: date_block_reasons time_block_reasons iso_block_reasons artist_block_reasons
      camera_block_reasons altitude_block_reasons)

lemma excluded_altitude:
  assumes "matchRecord fl lower input it = Excluded r"
    "r = SkipAltitudeMissing \<or> r = SkipAltitudeMin \<or> r = SkipAltitudeMax"
  shows "altitude_block input it = Some r"
  using matchRecord_Excluded [OF assms(1)] assms(2)
  by (auto dest: date_block_reasons time_block_reasons iso_block_reasons artist_block_reasons
      camera_block_reasons location_block_reasons)

lemma excluded_camera:
  assumes "matchRecord fl lower input it = Excluded r" "r = SkipCameraMake \<or> r = SkipCameraModel"
  shows "camera_block lower input it = Some r"
  using matchRecord_Excluded [OF assms(1)] assms(2)
  by (auto dest: date_block_reasons time_block_reasons iso_block_reasons artist_block_reasons
      altitude_block_reasons location_block_reasons)

lemma excluded_artist:
  assumes "matchRecord fl lower input it = Excluded SkipArtist"
  shows "artist_block lower input it = Some SkipArtist"
  using matchRecord_Excluded [OF assms(1)]
  by (auto dest: date_block_reasons time_block_reasons iso_block_reasons camera_block_reasons
      altitude_block_reasons location_block_reasons)

lemma excluded_iso:
  assumes "matchRecord fl lower input it = Excluded r" "r = SkipIsoMin \<or> r = SkipIsoMax"
  shows "iso_block input it = Some r"
  using matchRecord_Excluded [OF assms(1)] assms(2)
  by (auto dest: date_block_reasons time_block_reasons artist_block_reasons camera_block_reasons
      altitude_block_reasons location_block_reasons)

lemma excluded_time:
  assumes "matchRecord fl lower input it = Excluded SkipTimeWindow"
  shows "\<exists>hhmm. time_block input hhmm = Some SkipTimeWindow"
  using matchRecord_Excluded [OF assms(1)]
  by (auto dest: date_block_reasons iso_block_reasons artist_block_reasons camera_block_reasons
      altitude_block_reasons location_block_reasons)

lemma excluded_date:
  assumes "matchRecord fl lower input it = Excluded SkipDateRange"
  shows "\<exists>dateStr. date_block input dateStr = Some SkipDateRange"
  using matchRecord_Excluded [OF assms(1)]
  by (auto dest: time_block_reasons iso_block_reasons artist_block_reasons camera_block_reasons
      altitude_block_reasons location_block_reasons)

section \<open>The timestamp check\<close>


lemma parse_digits_2:
  "digits 2 s =
     (case s of
        a # b # r \<Rightarrow> if is_digit a \<and> is_digit b then Some ([a, b], r) else None
      | _ \<Rightarrow> None)"
  by (auto simp: digits_def split: list.splits)

lemma parse_digits_4:
  "digits 4 s =
     (case s of
        a # b # c # d # r \<Rightarrow>
          if is_digit a \<and> is_digit b \<and> is_digit c \<and> is_digit d
          then Some ([a, b, c, d], r) else None
      | _ \<Rightarrow> None)"
  by (auto simp: digits_def split: list.splits)

lemma opt_seconds_end_iff:
  "opt_seconds_end s \<longleftrightarrow> s = [] \<or> list_all2 fits [Colon, Digit, Digit] s"
  by (auto simp: opt_seconds_end_def one_of_def parse_digits_2 list_all2_Cons1
      split: list.splits if_splits)

lemma parse_iff_pattern: "parseExifDateTime s \<noteq> None \<longleftrightarrow> exif_pattern s"
  unfolding parseExifDateTime_def exif_pattern_def shape_minutes_def shape_seconds_def
  by (auto simp: parse_digits_2 parse_digits_4 one_of_def opt_seconds_end_iff list_all2_Cons1
      split: list.splits Option.bind_splits if_splits)

lemma exif_pattern_nonempty: "exif_pattern s \<Longrightarrow> s \<noteq> []"
  by (auto simp: exif_pattern_def shape_minutes_def shape_seconds_def)


lemma parse_example:
  "parseExifDateTime (js ''2024:01:15 10:00:00'') = Some (js ''2024-01-15'', js ''10:00'')"
  by (simp add: parseExifDateTime_def js_def parse_digits_4 parse_digits_2 one_of_def
      opt_seconds_end_def is_digit_def)

lemma parse_example2:
  "parseExifDateTime (js ''2023:12:31 23:59:00'') = Some (js ''2023-12-31'', js ''23:59'')"
  by (simp add: parseExifDateTime_def js_def parse_digits_4 parse_digits_2 one_of_def
      opt_seconds_end_def is_digit_def)




section \<open>Absent dimensions\<close>

text \<open>
  Claim C3. A dimension that the filter does not mention never drops a record: its block
  falls through, and the verdict is never an exclusion for one of its reasons. With all
  seven dimensions absent, every record with a parsable timestamp is included.
\<close>

theorem absent_dimension_never_excludes:
  "(date_range input = None \<longrightarrow>
      date_block input dateStr = None \<and> matchRecord fl lower input it \<noteq> Excluded SkipDateRange)
   \<and> (time_of_day input = None \<longrightarrow>
      time_block input hhmm = None \<and> matchRecord fl lower input it \<noteq> Excluded SkipTimeWindow)
   \<and> (iso input = None \<longrightarrow>
      iso_block input it = None \<and> matchRecord fl lower input it \<noteq> Excluded SkipIsoMin
      \<and> matchRecord fl lower input it \<noteq> Excluded SkipIsoMax)
   \<and> (artist input = None \<longrightarrow>
      artist_block lower input it = None \<and> matchRecord fl lower input it \<noteq> Excluded SkipArtist)
   \<and> (camera input = None \<longrightarrow>
      camera_block lower input it = None \<and> matchRecord fl lower input it \<noteq> Excluded SkipCameraMake
      \<and> matchRecord fl lower input it \<noteq> Excluded SkipCameraModel)
   \<and> (location input = None \<longrightarrow>
      location_block fl input it = None \<and> matchRecord fl lower input it \<noteq> Excluded SkipGpsMissing
      \<and> matchRecord fl lower input it \<noteq> Excluded SkipGpsOutsideRadius
      \<and> matchRecord fl lower input it \<noteq> Excluded SkipGpsOutsideBbox)
   \<and> (altitude input = None \<longrightarrow>
      altitude_block input it = None \<and> matchRecord fl lower input it \<noteq> Excluded SkipAltitudeMissing
      \<and> matchRecord fl lower input it \<noteq> Excluded SkipAltitudeMin
      \<and> matchRecord fl lower input it \<noteq> Excluded SkipAltitudeMax)
   \<and> (date_range input = None \<and> time_of_day input = None \<and> iso input = None
       \<and> artist input = None \<and> camera input = None \<and> location input = None
       \<and> altitude input = None
       \<and> DateTimeOriginal it = Some dto \<and> parseExifDateTime dto \<noteq> None \<longrightarrow>
      matchRecord fl lower input it = Included)"
proof (intro conjI impI)
  assume "date_range input = None"
  then show "date_block input dateStr = None" by (rule date_block_absent)
next
  assume a: "date_range input = None"
  show "matchRecord fl lower input it \<noteq> Excluded SkipDateRange"
    using excluded_date [of fl lower input it] date_block_absent [OF a] by auto
next
  assume "time_of_day input = None"
  then show "time_block input hhmm = None" by (rule time_block_absent)
next
  assume a: "time_of_day input = None"
  show "matchRecord fl lower input it \<noteq> Excluded SkipTimeWindow"
    using excluded_time [of fl lower input it] time_block_absent [OF a] by auto
next
  assume "iso input = None"
  then show "iso_block input it = None" by (rule iso_block_absent)
next
  assume a: "iso input = None"
  show "matchRecord fl lower input it \<noteq> Excluded SkipIsoMin"
    using excluded_iso [of fl lower input it SkipIsoMin] iso_block_absent [OF a, of it] by auto
next
  assume a: "iso input = None"
  show "matchRecord fl lower input it \<noteq> Excluded SkipIsoMax"
    using excluded_iso [of fl lower input it SkipIsoMax] iso_block_absent [OF a, of it] by auto
next
  assume "artist input = None"
  then show "artist_block lower input it = None" by (rule artist_block_absent)
next
  assume a: "artist input = None"
  show "matchRecord fl lower input it \<noteq> Excluded SkipArtist"
    using excluded_artist [of fl lower input it] artist_block_absent [OF a, of lower it] by auto
next
  assume "camera input = None"
  then show "camera_block lower input it = None" by (rule camera_block_absent)
next
  assume a: "camera input = None"
  show "matchRecord fl lower input it \<noteq> Excluded SkipCameraMake"
    using excluded_camera [of fl lower input it SkipCameraMake]
      camera_block_absent [OF a, of lower it] by auto
next
  assume a: "camera input = None"
  show "matchRecord fl lower input it \<noteq> Excluded SkipCameraModel"
    using excluded_camera [of fl lower input it SkipCameraModel]
      camera_block_absent [OF a, of lower it] by auto
next
  assume "location input = None"
  then show "location_block fl input it = None" by (rule location_block_absent)
next
  assume a: "location input = None"
  show "matchRecord fl lower input it \<noteq> Excluded SkipGpsMissing"
    using excluded_location [of fl lower input it SkipGpsMissing]
      location_block_absent [OF a, where it = it and fl = fl] by auto
next
  assume a: "location input = None"
  show "matchRecord fl lower input it \<noteq> Excluded SkipGpsOutsideRadius"
    using excluded_location [of fl lower input it SkipGpsOutsideRadius]
      location_block_absent [OF a, where it = it and fl = fl] by auto
next
  assume a: "location input = None"
  show "matchRecord fl lower input it \<noteq> Excluded SkipGpsOutsideBbox"
    using excluded_location [of fl lower input it SkipGpsOutsideBbox]
      location_block_absent [OF a, where it = it and fl = fl] by auto
next
  assume "altitude input = None"
  then show "altitude_block input it = None" by (rule altitude_block_absent)
next
  assume a: "altitude input = None"
  show "matchRecord fl lower input it \<noteq> Excluded SkipAltitudeMissing"
    using excluded_altitude [of fl lower input it SkipAltitudeMissing]
      altitude_block_absent [OF a, of it] by auto
next
  assume a: "altitude input = None"
  show "matchRecord fl lower input it \<noteq> Excluded SkipAltitudeMin"
    using excluded_altitude [of fl lower input it SkipAltitudeMin]
      altitude_block_absent [OF a, of it] by auto
next
  assume a: "altitude input = None"
  show "matchRecord fl lower input it \<noteq> Excluded SkipAltitudeMax"
    using excluded_altitude [of fl lower input it SkipAltitudeMax]
      altitude_block_absent [OF a, of it] by auto
next
  assume a: "date_range input = None \<and> time_of_day input = None \<and> iso input = None
       \<and> artist input = None \<and> camera input = None \<and> location input = None
       \<and> altitude input = None
       \<and> DateTimeOriginal it = Some dto \<and> parseExifDateTime dto \<noteq> None"
  then obtain dateStr' hhmm' where p: "parseExifDateTime dto = Some (dateStr', hhmm')" by auto
  with parse_iff_pattern [of dto] exif_pattern_nonempty [of dto] have "dto \<noteq> []" by auto
  with a p show "matchRecord fl lower input it = Included"
    by (auto simp: matchRecord_Included date_block_absent time_block_absent iso_block_absent
        artist_block_absent camera_block_absent location_block_absent altitude_block_absent)
qed

theorem absent_dimension_never_excludes_witness:
  "date_range example_input = None \<and> time_of_day example_input = None
   \<and> iso example_input = None \<and> artist example_input = None \<and> camera example_input = None
   \<and> location example_input = None \<and> altitude example_input = None
   \<and> parseExifDateTime (js ''2024:01:15 10:00:00'') = Some (js ''2024-01-15'', js ''10:00'')
   \<and> matchRecord (float_ops example_sys) (toLowerCase example_sys) example_input example_record = Included"
proof -
  have a: "date_range example_input = None" "time_of_day example_input = None"
    "iso example_input = None" "artist example_input = None" "camera example_input = None"
    "location example_input = None" "altitude example_input = None"
    by (simp_all add: example_input_def)
  have d: "DateTimeOriginal example_record = Some (js ''2024:01:15 10:00:00'')"
    by (simp add: example_record_def)
  from a d parse_example
    absent_dimension_never_excludes [where input = example_input
      and lower = "toLowerCase example_sys" and fl = "float_ops example_sys"
      and it = example_record and dto = "js ''2024:01:15 10:00:00''"]
  have "matchRecord (float_ops example_sys) (toLowerCase example_sys) example_input example_record = Included"
    by simp
  with a parse_example show ?thesis by simp
qed

section \<open>The geospatial dimension\<close>

lemma location_block_bbox:
  assumes "location input = Some loc" "bbox loc = Some (minLon, minLat, maxLon, maxLat)"
    "\<not> (center loc \<noteq> None \<and> truthy_num (radius_m loc))"
  shows "location_block fl input it = None \<longleftrightarrow>
     (\<exists>gla glo. GPSLatitude it = Some gla \<and> GPSLongitude it = Some glo
        \<and> minLon \<le> glo \<and> glo \<le> maxLon \<and> minLat \<le> gla \<and> gla \<le> maxLat)"
  using assms
  by (cases "GPSLatitude it"; cases "GPSLongitude it") (auto simp: location_block_def)

lemma location_block_missing:
  assumes "location input = Some loc" "bbox loc \<noteq> None \<or> (center loc \<noteq> None \<and> truthy_num (radius_m loc))"
   "GPSLatitude it = None \<or> GPSLongitude it = None"
  shows "location_block fl input it = Some SkipGpsMissing"
  using assms
  by (cases "GPSLatitude it"; cases "GPSLongitude it") (auto simp: location_block_def)

text \<open>
  The radius test as the code performs it: a record with both coordinates is dropped exactly
  when the computed distance is greater than the radius, and the bounding box plays no part.
  A distance that is NaN is not greater than anything, so a record whose distance comes out
  as NaN passes the test.
\<close>

lemma location_block_radius:
  assumes "location input = Some loc" "center loc = Some c" "radius_m loc = Some r" "r \<noteq> 0"
  shows "location_block fl input it = None \<longleftrightarrow>
     (\<exists>gla glo. GPSLatitude it = Some gla \<and> GPSLongitude it = Some glo
        \<and> \<not> dgt (haversineMeters fl (Finite (lat c)) (Finite (lon c)) (Finite gla) (Finite glo))
                (Finite r))"
  using assms
  by (cases "GPSLatitude it"; cases "GPSLongitude it")
     (auto simp: location_block_def truthy_num_def)

lemma location_block_bbox_ignored:
  assumes "location input = Some loc" "center loc = Some c" "radius_m loc = Some r" "r \<noteq> 0"
  shows "location_block fl (input\<lparr>location := Some (loc\<lparr>bbox := b\<rparr>)\<rparr>) it
           = location_block fl input it"
  using assms
  by (cases "GPSLatitude it"; cases "GPSLongitude it")
     (auto simp: location_block_def truthy_num_def)

lemma location_block_nan_distance:
  assumes "location input = Some loc" "center loc = Some c" "radius_m loc = Some r" "r \<noteq> 0"
    "GPSLatitude it = Some gla" "GPSLongitude it = Some glo"
    "haversineMeters fl (Finite (lat c)) (Finite (lon c)) (Finite gla) (Finite glo) = NaN"
  shows "location_block fl input it = None"
  using assms by (simp add: location_block_radius)

lemma location_block_center_only:
  assumes "location input = Some loc" "center loc = Some c" "radius_m loc = None" "bbox loc = None"
  shows "location_block fl input it = None"
  using assms by (simp add: location_block_def truthy_num_def)

text \<open>
  Claim C7. When the bounding box applies (it is given, and center with radius is not), the
  record passes the geospatial block exactly when it has both coordinates, its longitude
  lies in \<open>[minLon, maxLon]\<close> and its latitude in \<open>[minLat, maxLat]\<close>, bounds included. When
  any geospatial constraint is present, a record with neither latitude nor longitude is
  excluded. For the box \<open>[126.76, 37.4, 127.18, 37.7]\<close> the point with longitude
  \<open>126.98\<close> and latitude \<open>37.55\<close> passes, and the point with longitude \<open>125.0\<close> does not.
\<close>

theorem bbox_dimension:
  assumes "location input = Some loc"
  shows "(bbox loc = Some (minLon, minLat, maxLon, maxLat)
            \<and> \<not> (center loc \<noteq> None \<and> truthy_num (radius_m loc)) \<longrightarrow>
           (location_block fl input it = None \<longleftrightarrow>
              (\<exists>gla glo. GPSLatitude it = Some gla \<and> GPSLongitude it = Some glo
                 \<and> minLon \<le> glo \<and> glo \<le> maxLon \<and> minLat \<le> gla \<and> gla \<le> maxLat)))
       \<and> ((bbox loc \<noteq> None \<or> (center loc \<noteq> None \<and> truthy_num (radius_m loc)))
            \<and> GPSLatitude it = None \<and> GPSLongitude it = None \<longrightarrow>
           location_block fl input it = Some SkipGpsMissing
           \<and> matchRecord fl lower input it \<noteq> Included)
       \<and> (loc = seoul_bbox \<longrightarrow>
           location_block fl input (it\<lparr>GPSLongitude := Some 126.98, GPSLatitude := Some 37.55\<rparr>)
             = None
           \<and> location_block fl input (it\<lparr>GPSLongitude := Some 125.0, GPSLatitude := Some 37.55\<rparr>)
             = Some SkipGpsOutsideBbox)"
proof (intro conjI impI)
  assume "bbox loc = Some (minLon, minLat, maxLon, maxLat)
            \<and> \<not> (center loc \<noteq> None \<and> truthy_num (radius_m loc))"
  with location_block_bbox [OF assms, where it = it]
  show "location_block fl input it = None \<longleftrightarrow>
              (\<exists>gla glo. GPSLatitude it = Some gla \<and> GPSLongitude it = Some glo
                 \<and> minLon \<le> glo \<and> glo \<le> maxLon \<and> minLat \<le> gla \<and> gla \<le> maxLat)"
    by blast
next
  assume a: "(bbox loc \<noteq> None \<or> (center loc \<noteq> None \<and> truthy_num (radius_m loc)))
            \<and> GPSLatitude it = None \<and> GPSLongitude it = None"
  with location_block_missing [OF assms, where it = it]
  show m: "location_block fl input it = Some SkipGpsMissing" by blast
  then show "matchRecord fl lower input it \<noteq> Included" by (simp add: matchRecord_Included)
next
  assume "loc = seoul_bbox"
  with assms show "location_block fl input (it\<lparr>GPSLongitude := Some 126.98, GPSLatitude := Some 37.55\<rparr>) = None"
    by (simp add: location_block_def seoul_bbox_def truthy_num_def)
next
  assume "loc = seoul_bbox"
  with assms show "location_block fl input (it\<lparr>GPSLongitude := Some 125.0, GPSLatitude := Some 37.55\<rparr>)
             = Some SkipGpsOutsideBbox"
    by (simp add: location_block_def seoul_bbox_def truthy_num_def)
qed

theorem bbox_dimension_witness:
  "location_block (float_ops example_sys) (example_input\<lparr>location := Some seoul_bbox\<rparr>)
     (example_record\<lparr>GPSLongitude := Some 126.98, GPSLatitude := Some 37.55\<rparr>) = None
   \<and> location_block (float_ops example_sys) (example_input\<lparr>location := Some seoul_bbox\<rparr>)
     (example_record\<lparr>GPSLongitude := Some 125.0, GPSLatitude := Some 37.55\<rparr>)
       = Some SkipGpsOutsideBbox
   \<and> location_block (float_ops example_sys) (example_input\<lparr>location := Some seoul_bbox\<rparr>) example_record
       = Some SkipGpsMissing
   \<and> matchRecord (float_ops example_sys) (toLowerCase example_sys) (example_input\<lparr>location := Some seoul_bbox\<rparr>)
        example_record \<noteq> Included"
proof -
  let ?inp = "example_input\<lparr>location := Some seoul_bbox\<rparr>"
  have h: "location ?inp = Some seoul_bbox" by simp
  have g: "bbox seoul_bbox \<noteq> None" "GPSLatitude example_record = None"
    "GPSLongitude example_record = None"
    by (simp_all add: seoul_bbox_def example_record_def)
  from bbox_dimension [OF h, where it = example_record and lower = "toLowerCase example_sys"
           and fl = "float_ops example_sys"] g
  have 1: "location_block (float_ops example_sys) ?inp example_record = Some SkipGpsMissing"
    and 2: "matchRecord (float_ops example_sys) (toLowerCase example_sys) ?inp example_record \<noteq> Included"
    by blast+
  from bbox_dimension [OF h, where it = example_record]
  have 3: "location_block (float_ops example_sys) ?inp
     (example_record\<lparr>GPSLongitude := Some 126.98, GPSLatitude := Some 37.55\<rparr>) = None"
    and 4: "location_block (float_ops example_sys) ?inp
     (example_record\<lparr>GPSLongitude := Some 125.0, GPSLatitude := Some 37.55\<rparr>)
       = Some SkipGpsOutsideBbox"
    by blast+
  from 1 2 3 4 show ?thesis by blast
qed

text \<open>
  Claim C10. When the location gives a center but neither a radius nor a bounding box, the
  geospatial block lets every record through, also a record without coordinates, and the
  verdict is never one of the three geospatial exclusions.
\<close>

theorem center_without_radius_excludes_nothing:
  assumes "location input = Some loc" "center loc = Some c" "radius_m loc = None"
    "bbox loc = None"
  shows "location_block fl input it = None
       \<and> matchRecord fl lower input it \<noteq> Excluded SkipGpsMissing
       \<and> matchRecord fl lower input it \<noteq> Excluded SkipGpsOutsideRadius
       \<and> matchRecord fl lower input it \<noteq> Excluded SkipGpsOutsideBbox"
proof -
  have n: "location_block fl input it = None" by (rule location_block_center_only [OF assms])
  with excluded_location [of fl lower input it] show ?thesis by auto
qed

theorem center_without_radius_excludes_nothing_witness:
  "GPSLatitude example_record = None \<and> GPSLongitude example_record = None
   \<and> location_block (float_ops example_sys)
       (example_input\<lparr>location := Some \<lparr>bbox = None, center = Some seoul_center,
                                          radius_m = None\<rparr>\<rparr>) example_record = None
   \<and> matchRecord (float_ops example_sys) (toLowerCase example_sys)
       (example_input\<lparr>location := Some \<lparr>bbox = None, center = Some seoul_center,
                                          radius_m = None\<rparr>\<rparr>) example_record
       \<noteq> Excluded SkipGpsMissing"
proof -
  let ?loc = "\<lparr>bbox = None, center = Some seoul_center, radius_m = None\<rparr>"
  have h: "location (example_input\<lparr>location := Some ?loc\<rparr>) = Some ?loc"
    "center ?loc = Some seoul_center" "radius_m ?loc = None" "bbox ?loc = None"
    by simp_all
  have g: "GPSLatitude example_record = None" "GPSLongitude example_record = None"
    by (simp_all add: example_record_def)
  from center_without_radius_excludes_nothing
         [OF h, where it = example_record and lower = "toLowerCase example_sys"
           and fl = "float_ops example_sys"] g
  show ?thesis by blast
qed

section \<open>The altitude dimension\<close>

lemma altitude_block_iff:
  assumes "altitude input = Some r" "alt_min r \<noteq> None \<or> alt_max r \<noteq> None"
  shows "altitude_block input it = None \<longleftrightarrow>
     (\<exists>galt. GPSAltitude it = Some galt \<and>
        (\<forall>m. alt_min r = Some m \<longrightarrow> m \<le> (if GPSAltitudeRef it = Some 1 then - galt else galt)) \<and>
        (\<forall>m. alt_max r = Some m \<longrightarrow> (if GPSAltitudeRef it = Some 1 then - galt else galt) \<le> m))"
  using assms
  by (cases "GPSAltitude it"; cases "alt_min r"; cases "alt_max r")
     (auto simp: altitude_block_def Let_def not_less)

text \<open>
  Claim C6. When the filter has an altitude bound, a record without an altitude is
  excluded; a record with an altitude passes exactly when its effective altitude (the
  recorded one, negated exactly when the reference flag is the number 1) is not below
  the minimum and not above the maximum, where given. An altitude of 10 with flag 1 is
  treated as an altitude of -10 with flag 0.
\<close>

theorem altitude_dimension:
  assumes "altitude input = Some r" "alt_min r \<noteq> None \<or> alt_max r \<noteq> None"
  shows "(GPSAltitude it = None \<longrightarrow>
            altitude_block input it = Some SkipAltitudeMissing
            \<and> matchRecord fl lower input it \<noteq> Included)
     \<and> (\<forall>galt. GPSAltitude it = Some galt \<longrightarrow>
          (altitude_block input it = None \<longleftrightarrow>
             (\<forall>m. alt_min r = Some m \<longrightarrow> m \<le> (if GPSAltitudeRef it = Some 1 then - galt else galt)) \<and>
             (\<forall>m. alt_max r = Some m \<longrightarrow> (if GPSAltitudeRef it = Some 1 then - galt else galt) \<le> m)))
     \<and> altitude_block input (it\<lparr>GPSAltitude := Some 10, GPSAltitudeRef := Some 1\<rparr>)
         = altitude_block input (it\<lparr>GPSAltitude := Some (- 10), GPSAltitudeRef := Some 0\<rparr>)"
proof (intro conjI impI allI)
  assume "GPSAltitude it = None"
  with assms show m: "altitude_block input it = Some SkipAltitudeMissing"
    by (auto simp: altitude_block_def)
  then show "matchRecord fl lower input it \<noteq> Included"
    by (simp add: matchRecord_Included)
next
  fix galt assume "GPSAltitude it = Some galt"
  with altitude_block_iff [OF assms, of it]
  show "altitude_block input it = None \<longleftrightarrow>
             (\<forall>m. alt_min r = Some m \<longrightarrow> m \<le> (if GPSAltitudeRef it = Some 1 then - galt else galt)) \<and>
             (\<forall>m. alt_max r = Some m \<longrightarrow> (if GPSAltitudeRef it = Some 1 then - galt else galt) \<le> m)"
    by simp
next
  show "altitude_block input (it\<lparr>GPSAltitude := Some 10, GPSAltitudeRef := Some 1\<rparr>)
         = altitude_block input (it\<lparr>GPSAltitude := Some (- 10), GPSAltitudeRef := Some 0\<rparr>)"
    using assms(1) by (simp add: altitude_block_def)
qed

theorem altitude_dimension_witness:
  "altitude_block (example_input\<lparr>altitude := Some \<lparr>alt_min = Some 0, alt_max = None\<rparr>\<rparr>)
     (example_record\<lparr>GPSAltitude := Some 10, GPSAltitudeRef := Some 1\<rparr>) \<noteq> None
   \<and> altitude_block (example_input\<lparr>altitude := Some \<lparr>alt_min = Some 0, alt_max = None\<rparr>\<rparr>)
     (example_record\<lparr>GPSAltitude := Some 10, GPSAltitudeRef := Some 0\<rparr>) = None
   \<and> altitude_block (example_input\<lparr>altitude := Some \<lparr>alt_min = Some 0, alt_max = None\<rparr>\<rparr>)
     (example_record\<lparr>GPSAltitude := None\<rparr>) = Some SkipAltitudeMissing"
proof -
  let ?r = "\<lparr>alt_min = Some 0, alt_max = None\<rparr>"
  let ?inp = "example_input\<lparr>altitude := Some ?r\<rparr>"
  have h: "altitude ?inp = Some ?r" "alt_min ?r \<noteq> None \<or> alt_max ?r \<noteq> None"
    by simp_all
  note t = altitude_dimension [OF h]
  from t [where it = "example_record\<lparr>GPSAltitude := Some 10, GPSAltitudeRef := Some 1\<rparr>",
      THEN conjunct2, THEN conjunct1, rule_format, of 10]
  have 1: "altitude_block ?inp (example_record\<lparr>GPSAltitude := Some 10, GPSAltitudeRef := Some 1\<rparr>) \<noteq> None"
    by simp
  from t [where it = "example_record\<lparr>GPSAltitude := Some 10, GPSAltitudeRef := Some 0\<rparr>",
      THEN conjunct2, THEN conjunct1, rule_format, of 10]
  have 2: "altitude_block ?inp (example_record\<lparr>GPSAltitude := Some 10, GPSAltitudeRef := Some 0\<rparr>) = None"
    by simp
  from t [where it = "example_record\<lparr>GPSAltitude := None\<rparr>", THEN conjunct1]
  have 3: "altitude_block ?inp (example_record\<lparr>GPSAltitude := None\<rparr>) = Some SkipAltitudeMissing"
    by simp
  from 1 2 3 show ?thesis by blast
qed

section \<open>The report\<close>

lemma loop_body_counters:
  assumes "loop_body sys input outDir st it = Inr st'" "counters_ok st"
  shows "counters_ok st' \<and> st_scanned st' = st_scanned st + 1"
  using assms
  by (auto simp: loop_body_def counters_ok_def Let_def
      split: MatchOutcome.splits option.splits if_splits)

lemma run_loop_counters:
  "run_loop sys input outDir st items = Inr st' \<Longrightarrow> counters_ok st \<Longrightarrow>
     counters_ok st' \<and> st_scanned st' = st_scanned st + length items"
proof (induction items arbitrary: st)
  case Nil
  then show ?case by simp
next
  case (Cons it items)
  from Cons.prems(1) obtain st1 where
    b: "loop_body sys input outDir st it = Inr st1" and
    r: "run_loop sys input outDir st1 items = Inr st'"
    by (auto split: sum.splits)
  from loop_body_counters [OF b Cons.prems(2)] Cons.IH [OF r] show ?case by simp
qed

text \<open>The sample run, one iteration at a time.\<close>

lemmas block_defs =
  date_block_def time_block_def iso_block_def artist_block_def camera_block_def
  location_block_def altitude_block_def

lemma verdict_copied: "matchRecord fl lower january example_record = Included"
  by (simp add: matchRecord_def example_record_def january_def example_input_def parse_example
      block_defs inDateRange_def or_empty_def truthy_def)
     (simp add: js_def)

lemma verdict_no_timestamp:
  "matchRecord fl lower january
     (example_record\<lparr>SourceFile := Some (js ''/photos/b.jpg''), DateTimeOriginal := None\<rparr>)
   = MissingMeta"
  by (simp add: matchRecord_def)

lemma verdict_out_of_range:
  "matchRecord fl lower january
     (example_record\<lparr>SourceFile := Some (js ''/photos/c.jpg''),
                     DateTimeOriginal := Some (js ''2023:12:31 23:59:00'')\<rparr>)
   = Excluded SkipDateRange"
  by (simp add: matchRecord_def example_record_def january_def example_input_def parse_example2
      date_block_def inDateRange_def or_empty_def truthy_def)
     (simp add: js_def)

lemma verdict_file_gone:
  "matchRecord fl lower january (example_record\<lparr>SourceFile := Some (js ''/photos/gone.jpg'')\<rparr>)
   = Included"
  by (simp add: matchRecord_def example_record_def january_def example_input_def parse_example
      block_defs inDateRange_def or_empty_def truthy_def)
     (simp add: js_def)

lemma example_step1:
  "loop_body example_sys january example_outdir
     \<lparr>st_scanned = 0, st_matched = 0, st_skipped = 0, st_files = [],
      st_fs = example_fs @ [example_outdir]\<rparr>
     example_record
   = Inr \<lparr>st_scanned = 1, st_matched = 1, st_skipped = 0, st_files = [example_copy],
          st_fs = example_fs @ [example_outdir, example_copy]\<rparr>"
  unfolding loop_body_def verdict_copied Let_def
  by (simp add: example_sys_def example_record_def example_fs_def example_outdir_def
      example_copy_def js_def)

lemma example_step2:
  "loop_body example_sys january example_outdir
     \<lparr>st_scanned = 1, st_matched = 1, st_skipped = 0, st_files = [example_copy],
      st_fs = example_fs @ [example_outdir, example_copy]\<rparr>
     (example_record\<lparr>SourceFile := Some (js ''/photos/b.jpg''), DateTimeOriginal := None\<rparr>)
   = Inr \<lparr>st_scanned = 2, st_matched = 1, st_skipped = 1, st_files = [example_copy],
          st_fs = example_fs @ [example_outdir, example_copy]\<rparr>"
  unfolding loop_body_def verdict_no_timestamp Let_def by simp

lemma example_step3:
  "loop_body example_sys january example_outdir
     \<lparr>st_scanned = 2, st_matched = 1, st_skipped = 1, st_files = [example_copy],
      st_fs = example_fs @ [example_outdir, example_copy]\<rparr>
     (example_record\<lparr>SourceFile := Some (js ''/photos/c.jpg''),
                     DateTimeOriginal := Some (js ''2023:12:31 23:59:00'')\<rparr>)
   = Inr \<lparr>st_scanned = 3, st_matched = 1, st_skipped = 1, st_files = [example_copy],
          st_fs = example_fs @ [example_outdir, example_copy]\<rparr>"
  unfolding loop_body_def verdict_out_of_range Let_def by simp

lemma example_step4:
  "loop_body example_sys january example_outdir
     \<lparr>st_scanned = 3, st_matched = 1, st_skipped = 1, st_files = [example_copy],
      st_fs = example_fs @ [example_outdir, example_copy]\<rparr>
     (example_record\<lparr>SourceFile := Some (js ''/photos/gone.jpg'')\<rparr>)
   = Inr \<lparr>st_scanned = 4, st_matched = 1, st_skipped = 1, st_files = [example_copy],
          st_fs = example_fs @ [example_outdir, example_copy]\<rparr>"
  unfolding loop_body_def verdict_file_gone Let_def
  by (simp add: example_sys_def example_record_def example_fs_def example_outdir_def
      example_copy_def js_def)

lemma example_loop:
  "run_loop example_sys january example_outdir
     \<lparr>st_scanned = 0, st_matched = 0, st_skipped = 0, st_files = [],
      st_fs = example_fs @ [example_outdir]\<rparr>
     example_items
   = Inr \<lparr>st_scanned = 4, st_matched = 1, st_skipped = 1, st_files = [example_copy],
          st_fs = example_fs @ [example_outdir, example_copy]\<rparr>"
  by (simp only: example_items_def run_loop.simps example_step1 example_step2 example_step3
      example_step4 sum.case)

lemma example_setup:
  "base_dir january = Some (js ''/photos'')"
  "js ''/photos'' \<noteq> []"
  "trim (js ''/photos'') \<noteq> []"
  "path_join example_sys (js ''/out'')
     (todayKST example_sys @ 95 # promptSlug (original_prompt january)) = example_outdir"
  "mkdir example_sys example_fs example_outdir = Some (example_fs @ [example_outdir])"
  "exiftoolIndex example_sys fs bd = Some example_items"
  by (simp_all add: january_def example_input_def promptSlug_seoul example_sys_def
      example_outdir_def)
     (simp_all add: js_def trim_def is_space_def)

lemma example_run:
  "filterAndCopy example_sys example_fs (js ''/out'') january
     = Inr (example_report, example_fs @ [example_outdir, example_copy])"
  unfolding filterAndCopy_def
  by (simp add: example_setup example_loop example_report_def Let_def)

text \<open>
  Claim C1. Whenever \<^verbatim>\<open>filterAndCopy\<close> returns a report, \<^verbatim>\<open>matched\<close> is the number of
  destination paths in \<^verbatim>\<open>files\<close>, \<^verbatim>\<open>matched\<close> and \<^verbatim>\<open>skipped_missing_meta\<close> together
  do not exceed \<^verbatim>\<open>scanned\<close>, and \<^verbatim>\<open>scanned\<close> is the number of records the extraction
  step returned for the base directory.
\<close>

theorem filterAndCopy_report_invariant:
  assumes "filterAndCopy sys fs outRoot input = Inr (rep, fs')"
  shows "matched rep = length (files rep)
       \<and> matched rep + skipped_missing_meta rep \<le> scanned rep
       \<and> (\<exists>bd fs1 items. base_dir input = Some bd
             \<and> mkdir sys fs (output_dir rep) = Some fs1
             \<and> exiftoolIndex sys fs1 bd = Some items
             \<and> scanned rep = length items)"
proof -
  from assms obtain bd outDir fs1 items st where
    bd: "base_dir input = Some bd" and
    mk: "mkdir sys fs outDir = Some fs1" and
    items: "exiftoolIndex sys fs1 bd = Some items" and
    loop: "run_loop sys input outDir
             \<lparr>st_scanned = 0, st_matched = 0, st_skipped = 0, st_files = [], st_fs = fs1\<rparr>
             items = Inr st" and
    rep: "rep = \<lparr>scanned = st_scanned st, matched = st_matched st,
                 skipped_missing_meta = st_skipped st, output_dir = outDir,
                 files = st_files st\<rparr>"
    by (auto simp: filterAndCopy_def Let_def split: option.splits if_splits sum.splits)
  have "counters_ok \<lparr>st_scanned = 0, st_matched = 0, st_skipped = 0, st_files = [], st_fs = fs1\<rparr>"
    by (simp add: counters_ok_def)
  from run_loop_counters [OF loop this] have "counters_ok st" "st_scanned st = length items"
    by simp_all
  with bd mk items rep show ?thesis by (auto simp: counters_ok_def)
qed

theorem filterAndCopy_report_invariant_witness:
  "filterAndCopy example_sys example_fs (js ''/out'') january
     = Inr (example_report, example_fs @ [example_outdir, example_copy])
   \<and> matched example_report = length (files example_report)
   \<and> matched example_report + skipped_missing_meta example_report \<le> scanned example_report
   \<and> scanned example_report = 4"
  using filterAndCopy_report_invariant [OF example_run] example_run
  by (simp add: example_report_def)

end
